theory Spec2Isabelle
  imports Main "HOL-Library.Product_Lexorder" "HOL-Library.List_Lexorder" "HOL-Library.Char_ord"
begin

section \<open>Stock Data Visualizer: a shallow embedding of \<open>app.py\<close>\<close>

text \<open>
  Conventions of the embedding.
  \<^item> A Python \<open>str\<close> is a \<open>string\<close>, the bytes of its UTF-8 encoding; an ASCII string
    is a string of characters below 128. Strings are compared lexicographically, as
    Python compares them.
  \<^item> The date parser is modelled on ASCII strings, where the decimal digits are the
    characters \<open>0\<close> to \<open>9\<close>: what is proved of \<open>strptime\<close> for every string is
    stated for the ASCII strings.
  \<^item> The case conversions \<open>upper\<close>, \<open>lower\<close> and \<open>title\<close> of the library are parameters
    of the run (\<open>main_with\<close>); \<open>main\<close> is the run with the conversions of the ASCII
    letters, which are the library's on ASCII input.
  \<^item> A raised exception is the \<open>Inl\<close> of a sum; \<open>sys.exit(1)\<close> raises \<open>SystemExit\<close>.
  \<^item> A \<open>datetime.date\<close> is the triple (year, month, day); a naive \<open>datetime.datetime\<close> is
    a date paired with (hour, minute, second, microsecond). The lexicographic order of these
    tuples is the order Python compares dates and datetimes by.
\<close>

datatype py_error =
    ValueError | TypeError | AttributeError | ZeroDivisionError | OverflowError
  | RequestException | SystemExit

type_synonym date = "nat \<times> nat \<times> nat"
type_synonym datetime = "date \<times> (nat \<times> nat \<times> nat \<times> nat)"

definition is_ascii :: "char \<Rightarrow> bool" where
  "is_ascii c = ((of_char c :: nat) < 128)"

definition dt_date :: "datetime \<Rightarrow> date" where
  \<comment> \<open>\<open>datetime.date()\<close>\<close>
  "dt_date ts = fst ts"

subsection \<open>The calendar of \<open>datetime.date\<close>\<close>

definition is_leap :: "nat \<Rightarrow> bool" where
  "is_leap y = (y mod 4 = 0 \<and> (y mod 100 \<noteq> 0 \<or> y mod 400 = 0))"

definition days_in_month :: "nat \<Rightarrow> nat \<Rightarrow> nat" where
  "days_in_month y m =
     (if m = 2 \<and> is_leap y then 29
      else [0, 31, 28, 31, 30, 31, 30, 31, 31, 30, 31, 30, 31] ! m)"

definition date_new :: "nat \<Rightarrow> nat \<Rightarrow> nat \<Rightarrow> py_error + date" where
  \<comment> \<open>the constructor \<open>date(year, month, day)\<close>: years 1 to 9999, months 1 to 12,
      days 1 to the length of the month; anything else raises \<open>ValueError\<close>\<close>
  "date_new y m d =
     (if \<not> (1 \<le> y \<and> y \<le> 9999) then Inl ValueError
      else if \<not> (1 \<le> m \<and> m \<le> 12) then Inl ValueError
      else if \<not> (1 \<le> d \<and> d \<le> days_in_month y m) then Inl ValueError
      else Inr (y, m, d))"

subsection \<open>\<open>datetime.strptime(s, "%Y-%m-%d")\<close>\<close>

text \<open>
  The library turns the format into the regular expression
  \<^verbatim>\<open>(?P<Y>\d\d\d\d)-(?P<m>1[0-2]|0[1-9]|[1-9])-(?P<d>3[0-1]|[1-2]\d|0[1-9]|[1-9]| [1-9])\<close>,
  matches it at the start of the string, raises \<open>ValueError\<close> when there is no match or when
  the match does not reach the end of the string, converts the three groups with \<open>int\<close> and
  builds the date, which raises \<open>ValueError\<close> for a date the calendar does not have.
  Each group below returns its matches in the order the regular expression tries them, as
  pairs of the text matched and the rest of the string. The digit class is that of the
  ASCII strings; the library's also holds the other decimal digits of Unicode, so the
  model is the library's on ASCII strings.
\<close>

definition digit_val :: "char \<Rightarrow> nat option" where
  \<comment> \<open>the value of an ASCII decimal digit\<close>
  "digit_val c =
     (let n = (of_char c :: nat) in if 48 \<le> n \<and> n \<le> 57 then Some (n - 48) else None)"

definition is_digit :: "char \<Rightarrow> bool" where
  "is_digit c = (digit_val c \<noteq> None)"

definition in_cls :: "nat \<Rightarrow> nat \<Rightarrow> char \<Rightarrow> bool" where
  \<comment> \<open>the character class \<open>[lo-hi]\<close> of digits\<close>
  "in_cls lo hi c = (case digit_val c of None \<Rightarrow> False | Some v \<Rightarrow> lo \<le> v \<and> v \<le> hi)"

fun alt1 :: "(char \<Rightarrow> bool) \<Rightarrow> string \<Rightarrow> (string \<times> string) list" where
  "alt1 p (a # r) = (if p a then [([a], r)] else [])"
| "alt1 p [] = []"

fun alt2 :: "(char \<Rightarrow> bool) \<Rightarrow> (char \<Rightarrow> bool) \<Rightarrow> string \<Rightarrow> (string \<times> string) list" where
  "alt2 p q (a # b # r) = (if p a \<and> q b then [([a, b], r)] else [])"
| "alt2 p q [a] = []"
| "alt2 p q [] = []"

fun group_Y :: "string \<Rightarrow> (string \<times> string) list" where
  "group_Y (a # b # c # d # r) =
     (if is_digit a \<and> is_digit b \<and> is_digit c \<and> is_digit d then [([a, b, c, d], r)] else [])"
| "group_Y [a, b, c] = []"
| "group_Y [a, b] = []"
| "group_Y [a] = []"
| "group_Y [] = []"

definition group_m :: "string \<Rightarrow> (string \<times> string) list" where
  "group_m s =
     alt2 (\<lambda>c. c = CHR ''1'') (in_cls 0 2) s
     @ alt2 (\<lambda>c. c = CHR ''0'') (in_cls 1 9) s
     @ alt1 (in_cls 1 9) s"

definition group_d :: "string \<Rightarrow> (string \<times> string) list" where
  "group_d s =
     alt2 (\<lambda>c. c = CHR ''3'') (in_cls 0 1) s
     @ alt2 (in_cls 1 2) is_digit s
     @ alt2 (\<lambda>c. c = CHR ''0'') (in_cls 1 9) s
     @ alt1 (in_cls 1 9) s
     @ alt2 (\<lambda>c. c = CHR '' '') (in_cls 1 9) s"

fun lit :: "char \<Rightarrow> string \<Rightarrow> string list" where
  "lit c (x # r) = (if x = c then [r] else [])"
| "lit c [] = []"

definition regex_match :: "string \<Rightarrow> (string \<times> string \<times> string \<times> string) list" where
  \<comment> \<open>the matches of the whole expression, first match first:
      the three groups and the unmatched rest\<close>
  "regex_match s =
     concat (map (\<lambda>(y, r1).
       concat (map (\<lambda>r2.
         concat (map (\<lambda>(m, r3).
           concat (map (\<lambda>r4.
             map (\<lambda>(d, r5). (y, m, d, r5)) (group_d r4))
           (lit (CHR ''-'') r3)))
         (group_m r2)))
       (lit (CHR ''-'') r1)))
     (group_Y s))"

definition decimal :: "string \<Rightarrow> nat" where
  \<comment> \<open>the number a string of digits writes in base 10\<close>
  "decimal s = foldl (\<lambda>acc c. 10 * acc + (case digit_val c of Some v \<Rightarrow> v | None \<Rightarrow> 0)) 0 s"

definition py_int :: "string \<Rightarrow> nat" where
  \<comment> \<open>\<open>int\<close> on a matched group: leading blanks are stripped, the digits read in base 10\<close>
  "py_int s = decimal (dropWhile (\<lambda>c. c = CHR '' '') s)"

definition strptime :: "string \<Rightarrow> py_error + datetime" where
  "strptime s =
     (case regex_match s of
        [] \<Rightarrow> Inl ValueError
      | (y, m, d, rest) # _ \<Rightarrow>
          if rest \<noteq> [] then Inl ValueError
          else (case date_new (py_int y) (py_int m) (py_int d) of
                  Inl e \<Rightarrow> Inl e
                | Inr dd \<Rightarrow> Inr (dd, (0, 0, 0, 0))))"

subsection \<open>Date utilities\<close>

definition validate_date :: "string \<Rightarrow> py_error + bool" where
  "validate_date s =
     (case strptime s of
        Inr _ \<Rightarrow> Inr True
      | Inl e \<Rightarrow> if e = ValueError then Inr False else Inl e)"

definition to_date :: "string \<Rightarrow> py_error + date" where
  "to_date s = (case strptime s of Inl e \<Rightarrow> Inl e | Inr ts \<Rightarrow> Inr (dt_date ts))"

subsection \<open>Granularity tables\<close>

definition function_for :: "string \<Rightarrow> py_error + string" where
  "function_for ts =
     (if ts = ''DAILY'' then Inr ''TIME_SERIES_DAILY''
      else if ts = ''WEEKLY'' then Inr ''TIME_SERIES_WEEKLY''
      else if ts = ''MONTHLY'' then Inr ''TIME_SERIES_MONTHLY''
      else Inl ValueError)"

definition series_key_for :: "string \<Rightarrow> py_error + string" where
  "series_key_for fn =
     (if fn = ''TIME_SERIES_DAILY'' then Inr ''Time Series (Daily)''
      else if fn = ''TIME_SERIES_WEEKLY'' then Inr ''Weekly Time Series''
      else if fn = ''TIME_SERIES_MONTHLY'' then Inr ''Monthly Time Series''
      else Inl ValueError)"

subsection \<open>Values, effects and the environment\<close>

text \<open>
  A decoded JSON value. A \<open>dict\<close> is an association list in insertion order (its keys are
  distinct in Python), looked up with \<open>map_of\<close>. The type \<open>'f\<close> stands for Python's
  \<open>float\<close>; the conversions \<open>float(str)\<close> and \<open>float(int)\<close> are parameters:
  \<open>None\<close> is the \<open>ValueError\<close> of a string that is no number, respectively the
  \<open>OverflowError\<close> of an integer too large for a float.
\<close>

datatype 'f json =
    JNull | JBool bool | JInt int | JFloat 'f | JStr string
  | JList "'f json list" | JObj "(string \<times> 'f json) list"

record 'f float_ops =
  float_of_str :: "string \<Rightarrow> 'f option"
  float_of_int :: "int \<Rightarrow> 'f option"

fun py_float :: "'f float_ops \<Rightarrow> 'f json \<Rightarrow> py_error + 'f" where
  "py_float ops (JStr s) = (case float_of_str ops s of None \<Rightarrow> Inl ValueError | Some x \<Rightarrow> Inr x)"
| "py_float ops (JFloat x) = Inr x"
| "py_float ops (JInt i) = (case float_of_int ops i of None \<Rightarrow> Inl OverflowError | Some x \<Rightarrow> Inr x)"
| "py_float ops (JBool b) =
     (case float_of_int ops (if b then 1 else 0) of None \<Rightarrow> Inl OverflowError | Some x \<Rightarrow> Inr x)"
| "py_float ops JNull = Inl TypeError"
| "py_float ops (JList xs) = Inl TypeError"
| "py_float ops (JObj kvs) = Inl TypeError"

text \<open>What the program does to the outside world, in the order it does it.\<close>

datatype 'f event =
    Print "'f json list"
  | PrintError string py_error
  | Input string
  | HttpGet string "(string \<times> string) list"
  | WriteFile string string
  | OpenBrowser string

type_synonym ('f, 'a) io = "'f event list \<times> (py_error + 'a)"

definition bind_io :: "('f, 'a) io \<Rightarrow> ('a \<Rightarrow> ('f, 'b) io) \<Rightarrow> ('f, 'b) io" where
  "bind_io m f =
     (case m of
        (es, Inl e) \<Rightarrow> (es, Inl e)
      | (es, Inr a) \<Rightarrow> (case f a of (es', r) \<Rightarrow> (es @ es', r)))"

definition pure_io :: "py_error + 'a \<Rightarrow> ('f, 'a) io" where
  "pure_io r = ([], r)"

subsection \<open>Series Normalizer\<close>

type_synonym 'f row = "datetime \<times> 'f"

fun close_rows :: "'f float_ops \<Rightarrow> (string \<times> 'f json) list \<Rightarrow> 'f row list \<Rightarrow> py_error + 'f row list" where
  \<comment> \<open>the loop over \<open>data[key].items()\<close>, the list \<open>rows\<close> as accumulator\<close>
  "close_rows ops [] rows = Inr rows"
| "close_rows ops ((k, v) # kvs) rows =
     (case strptime k of
        Inl e \<Rightarrow> Inl e
      | Inr ts \<Rightarrow>
          (case v of
             JObj flds \<Rightarrow>
               (case map_of flds ''4. close'' of
                  None \<Rightarrow> close_rows ops kvs rows
                | Some JNull \<Rightarrow> close_rows ops kvs rows
                | Some close_str \<Rightarrow>
                    (case py_float ops close_str of
                       Inr close_val \<Rightarrow> close_rows ops kvs (rows @ [(ts, close_val)])
                     | Inl e \<Rightarrow> if e = ValueError then close_rows ops kvs rows else Inl e))
           | _ \<Rightarrow> Inl AttributeError))"

definition parse_close_series :: "'f float_ops \<Rightarrow> (string \<times> 'f json) list \<Rightarrow> string \<Rightarrow> ('f, 'f row list) io" where
  "parse_close_series ops data fn =
     (case series_key_for fn of
        Inl e \<Rightarrow> ([], Inl e)
      | Inr key \<Rightarrow>
          (case map_of data key of
             None \<Rightarrow>
               ([Print [JStr ''Unexpected API response. missing key:'', JList (map (JStr \<circ> fst) data)]],
                Inl SystemExit)
           | Some (JObj entries) \<Rightarrow>
               (case close_rows ops entries [] of
                  Inl e \<Rightarrow> ([], Inl e)
                | Inr rows \<Rightarrow> ([], Inr (sort_key fst rows)))
           | Some _ \<Rightarrow> ([], Inl AttributeError)))"

subsection \<open>Range Filter\<close>

definition filter_range :: "'f row list \<Rightarrow> date \<Rightarrow> date \<Rightarrow> 'f row list" where
  "filter_range rows start_d end_d =
     filter (\<lambda>(ts, c). start_d \<le> dt_date ts \<and> dt_date ts \<le> end_d) rows"

subsection \<open>Label Thinner\<close>

text \<open>
  The result is a list of labels and \<open>None\<close> placeholders; a list returned unchanged is the
  list of its labels. \<open>n // max_labels\<close> is the floor division of integers and raises
  \<open>ZeroDivisionError\<close> for \<open>max_labels = 0\<close>.
\<close>

definition thin_labels :: "'a list \<Rightarrow> int \<Rightarrow> py_error + 'a option list" where
  "thin_labels labels max_labels =
     (let n = length labels in
      if int n \<le> max_labels then Inr (map Some labels)
      else if max_labels = 0 then Inl ZeroDivisionError
      else
        (let step = nat (max 1 (int n div max_labels)) in
         Inr (map (\<lambda>(i, lbl). if i mod step = 0 \<or> i = n - 1 then Some lbl else None)
                (enumerate 0 labels))))"

subsection \<open>Chart Builder\<close>

text \<open>
  The chart library is outside the program: \<open>make_chart\<close> fills in a chart and the library
  renders it. The chart is the record of what \<open>make_chart\<close> sets; the renderer is a
  parameter, and so is the library's \<open>strftime("%Y-%m-%d")\<close>, whose text for a year below
  1000 depends on the platform.
\<close>

datatype chart_kind = Line | Bar

record 'f chart =
  chart_kind :: chart_kind
  show_minor_x_labels :: bool
  x_label_rotation :: nat
  show_legend :: bool
  chart_title :: string
  x_labels :: "string list"
  x_labels_major :: "string option list"
  y_title :: string
  series :: "(string \<times> 'f list) list"

definition em_dash :: string where
  \<comment> \<open>the character U+2014, in UTF-8\<close>
  "em_dash = [CHR 0xE2, CHR 0x80, CHR 0x94]"

definition make_chart ::
  "('f chart \<Rightarrow> py_error + string) \<Rightarrow> (datetime \<Rightarrow> string) \<Rightarrow>
   string \<Rightarrow> string \<Rightarrow> string \<Rightarrow> 'f row list \<Rightarrow> py_error + string" where
  "make_chart render strftime symbol ts_label chart_type rows =
     (let title = symbol @ '' '' @ em_dash @ '' '' @ ts_label;
          xs = map (\<lambda>(d, c). strftime d) rows;
          closes = map (\<lambda>(d, c). c) rows
      in case thin_labels xs 12 of
           Inl e \<Rightarrow> Inl e
         | Inr major \<Rightarrow>
             render \<lparr> chart_kind = (if chart_type = ''line'' then Line else Bar),
                      show_minor_x_labels = False, x_label_rotation = 20, show_legend = False,
                      chart_title = title, x_labels = xs, x_labels_major = major,
                      y_title = ''Close (USD)'', series = [(''Close'', closes)] \<rparr>)"

subsection \<open>Document Assembler\<close>

text \<open>
  The document is the element tree handed to the serialiser. An element has a tag, its
  attributes, its text, its children and its tail. The XML parser is a parameter: it
  returns the root element of the image, or the message of the exception it raises.
  Setting the text of an element raises \<open>ValueError\<close> unless the XML library takes the
  string for XML text. It scans the UTF-8 bytes: a byte below 128 must be tab, line feed,
  carriage return or at least the blank, and a byte from 128 upwards must not start the
  encoding of U+FFFE, of U+FFFF or of a surrogate.
\<close>

datatype xml = Element string "(string \<times> string) list" "string option" "xml list" "string option"

definition xml_char :: "char \<Rightarrow> bool" where
  "xml_char c = (let n = (of_char c :: nat) in n = 9 \<or> n = 10 \<or> n = 13 \<or> 32 \<le> n)"

definition forbidden3 :: "char \<Rightarrow> char \<Rightarrow> char \<Rightarrow> bool" where
  "forbidden3 a b c =
     (let n = (of_char a :: nat) * 65536 + of_char b * 256 + of_char c
      in n = 0xEFBFBE \<or> n = 0xEFBFBF \<or> (0xEDA080 \<le> n \<and> n \<le> 0xEDBFBF))"

fun xml_compatible :: "string \<Rightarrow> bool" where
  "xml_compatible (a # b # c # r) =
     ((if is_ascii a then xml_char a else \<not> forbidden3 a b c) \<and> xml_compatible (b # c # r))"
| "xml_compatible [a, b] =
     ((if is_ascii a then xml_char a else True) \<and> (if is_ascii b then xml_char b else True))"
| "xml_compatible [a] = (if is_ascii a then xml_char a else True)"
| "xml_compatible [] = True"

definition set_text :: "string \<Rightarrow> py_error + string" where
  "set_text s = (if xml_compatible s then Inr s else Inl ValueError)"

definition page_style :: string where
  "page_style =
     ''body{font-family:Arial,Helvetica,sans-serif;margin:24px;} .chart{max-width:1000px;}''"

definition embed_error_text :: "string \<Rightarrow> string \<Rightarrow> string" where
  \<comment> \<open>the f-string of the fallback: the error note, an empty line, the raw text\<close>
  "embed_error_text msg svg_text =
     ''(SVG embed error: '' @ msg @ '')'' @ [CHR 0x0A, CHR 0x0A] @ svg_text"

definition wrap_html ::
  "(string \<Rightarrow> string + xml) \<Rightarrow> string \<Rightarrow> string \<Rightarrow> py_error + xml" where
  "wrap_html fromstring svg_text page_title =
     (case set_text page_title of
        Inl e \<Rightarrow> Inl e
      | Inr t \<Rightarrow>
          (let head = Element ''head'' [] None
                        [Element ''meta'' [(''charset'', ''utf-8'')] None [] None,
                         Element ''title'' [] (Some t) [] None,
                         Element ''style'' [] (Some page_style) [] None] None;
               h1 = Element ''h1'' [] (Some t) [] None
           in case (case fromstring svg_text of
                      Inr svg_el \<Rightarrow> Inr [svg_el]
                    | Inl msg \<Rightarrow>
                        (case set_text (embed_error_text msg svg_text) of
                           Inl e \<Rightarrow> Inl e
                         | Inr txt \<Rightarrow> Inr [Element ''pre'' [] (Some txt) [] None])) of
                Inl e \<Rightarrow> Inl e
              | Inr kids \<Rightarrow>
                  Inr (Element ''html'' [] None
                        [head,
                         Element ''body'' [] None
                           [h1, Element ''div'' [(''class'', ''chart'')] None kids None] None]
                        None)))"

subsection \<open>The network, the file system and the run\<close>

datatype 'f http_outcome =
    Raised py_error
  | Response nat "py_error + (string \<times> 'f json) list"

record 'f env =
  requests_get :: "string \<Rightarrow> (string \<times> string) list \<Rightarrow> 'f http_outcome"
  api_key :: string
  floats :: "'f float_ops"
  pygal_render :: "'f chart \<Rightarrow> py_error + string"
  date_strftime :: "datetime \<Rightarrow> string"
  etree_fromstring :: "string \<Rightarrow> string + xml"
  etree_tostring :: "xml \<Rightarrow> string"
  os_abspath :: "string \<Rightarrow> string"

definition API_URL :: string where
  "API_URL = ''https://www.alphavantage.co/query''"

definition fetch_data :: "'f env \<Rightarrow> string \<Rightarrow> string \<Rightarrow> ('f, (string \<times> 'f json) list) io" where
  "fetch_data env symbol fn =
     (let params = [(''function'', fn), (''symbol'', symbol), (''apikey'', api_key env),
                    (''datatype'', ''json''), (''outputsize'', ''full'')];
          get = HttpGet API_URL params
      in case requests_get env API_URL params of
           Raised e \<Rightarrow> ([get], Inl e)
         | Response status body \<Rightarrow>
             if status \<noteq> 200
             then ([get, Print [JStr ''Error fetching data:'', JInt (int status)]], Inl SystemExit)
             else (case body of
                     Inl e \<Rightarrow> ([get], Inl e)
                   | Inr data \<Rightarrow>
                       (case map_of data ''Error Message'' of
                          Some msg \<Rightarrow> ([get, Print [JStr ''API Error:'', msg]], Inl SystemExit)
                        | None \<Rightarrow>
                            (case map_of data ''Note'' of
                               Some _ \<Rightarrow>
                                 ([get, Print [JStr ''API Note (rate limited). Please wait ~1 minute and try again.'']],
                                  Inl SystemExit)
                             | None \<Rightarrow> ([get], Inr data)))))"

definition save_and_open :: "(string \<Rightarrow> string) \<Rightarrow> string \<Rightarrow> string \<Rightarrow> ('f, unit) io" where
  "save_and_open abspath html_text symbol =
     (let fname = symbol @ ''_chart.html''
      in ([WriteFile fname html_text, OpenBrowser (''file://'' @ abspath fname)], Inr ()))"

definition lower_letters :: string where
  "lower_letters = ''abcdefghijklmnopqrstuvwxyz''"

definition upper_letters :: string where
  "upper_letters = ''ABCDEFGHIJKLMNOPQRSTUVWXYZ''"

definition upper_char :: "char \<Rightarrow> char" where
  \<comment> \<open>the conversion of the ASCII letters; any other character is left as it is\<close>
  "upper_char c = (case map_of (zip lower_letters upper_letters) c of None \<Rightarrow> c | Some u \<Rightarrow> u)"

definition lower_char :: "char \<Rightarrow> char" where
  "lower_char c = (case map_of (zip upper_letters lower_letters) c of None \<Rightarrow> c | Some l \<Rightarrow> l)"

definition is_alpha :: "char \<Rightarrow> bool" where
  "is_alpha c = (c \<in> set (lower_letters @ upper_letters))"

definition py_upper :: "string \<Rightarrow> string" where
  "py_upper s = map upper_char s"

definition py_lower :: "string \<Rightarrow> string" where
  "py_lower s = map lower_char s"

fun title_from :: "bool \<Rightarrow> string \<Rightarrow> string" where
  \<comment> \<open>\<open>str.title\<close>: a letter after a letter is lowered, any other letter is raised\<close>
  "title_from prev [] = []"
| "title_from prev (c # cs) =
     (if prev then lower_char c else upper_char c) # title_from (is_alpha c) cs"

definition py_title :: "string \<Rightarrow> string" where
  "py_title s = title_from False s"

record inputs =
  in_symbol :: string
  in_chart_type :: string
  in_time_series :: string
  in_start_date :: string
  in_end_date :: string

record case_ops =
  str_upper :: "string \<Rightarrow> string"
  str_lower :: "string \<Rightarrow> string"
  str_title :: "string \<Rightarrow> string"

definition ascii_case :: case_ops where
  "ascii_case = \<lparr> str_upper = py_upper, str_lower = py_lower, str_title = py_title \<rparr>"

definition main_try ::
  "case_ops \<Rightarrow> 'f env \<Rightarrow> string \<Rightarrow> string \<Rightarrow> string \<Rightarrow> string \<Rightarrow> string \<Rightarrow> ('f, unit) io" where
  \<comment> \<open>the body of the \<open>try\<close> of \<open>main\<close>\<close>
  "main_try ops env stock_symbol chart_type time_series start_date end_date =
     bind_io (pure_io (function_for time_series)) (\<lambda>fn.
     bind_io (fetch_data env stock_symbol fn) (\<lambda>data.
     bind_io (parse_close_series (floats env) data fn) (\<lambda>rows.
     bind_io (pure_io (to_date start_date)) (\<lambda>start_d.
     bind_io (pure_io (to_date end_date)) (\<lambda>end_d.
       (let rows' = filter_range rows start_d end_d in
        if rows' = [] then ([Print [JStr ''No data in that date range.'']], Inr ())
        else
          bind_io (pure_io (make_chart (pygal_render env) (date_strftime env) stock_symbol
                              (str_title ops time_series) chart_type rows')) (\<lambda>svg.
          (let page_title = stock_symbol @ '' '' @ em_dash @ '' '' @ str_title ops time_series
                              @ '' '' @ em_dash @ '' '' @ start_date @ '' to '' @ end_date in
           bind_io (pure_io (wrap_html (etree_fromstring env) svg page_title)) (\<lambda>html.
           bind_io (save_and_open (os_abspath env) (etree_tostring env html) stock_symbol) (\<lambda>_.
             ([Print [JStr ''Chart generated and opened in your browser.'']], Inr ())))))))))))"

definition main_with :: "case_ops \<Rightarrow> 'f env \<Rightarrow> inputs \<Rightarrow> ('f, unit) io" where
  \<comment> \<open>\<open>main\<close>, for the case conversions \<open>ops\<close>\<close>
  "main_with ops env inp =
     (let stock_symbol = str_upper ops (in_symbol inp);
          chart_type = str_lower ops (in_chart_type inp);
          time_series = str_upper ops (in_time_series inp);
          start_date = in_start_date inp;
          end_date = in_end_date inp;
          prompts = [Print [JStr ''=== Stock Data Visualizer ===''],
                     Input ''Enter stock symbol (e.g., AAPL, GOOGL): '',
                     Input ''Enter chart type (line, bar): '',
                     Input ''Enter time series (daily, weekly, monthly): '',
                     Input ''Enter start date (YYYY-MM-DD): '',
                     Input ''Enter end date (YYYY-MM-DD): '']
      in
      bind_io (prompts, Inr ()) (\<lambda>_.
      bind_io (pure_io (validate_date start_date)) (\<lambda>ok_start.
      bind_io (if ok_start then pure_io (validate_date end_date) else pure_io (Inr False)) (\<lambda>ok_end.
        if \<not> ok_start \<or> \<not> ok_end
        then ([Print [JStr ''Invalid date format. Please use YYYY-MM-DD.'']], Inr ())
        else if start_date > end_date
        then ([Print [JStr ''Start date must be before end date.'']], Inr ())
        else if chart_type \<notin> set [''line'', ''bar'']
        then ([Print [JStr ''Invalid chart type. Please choose 'line' or 'bar'.'']], Inr ())
        else if time_series \<notin> set [''DAILY'', ''WEEKLY'', ''MONTHLY'']
        then ([Print [JStr ''Invalid time series. Please choose 'daily', 'weekly', or 'monthly'.'']], Inr ())
        else
          (case main_try ops env stock_symbol chart_type time_series start_date end_date of
             (es, Inl e) \<Rightarrow>
               if e = SystemExit then (es, Inl SystemExit)
               else (es @ [PrintError ''Something went wrong:'' e], Inr ())
           | (es, Inr u) \<Rightarrow> (es, Inr ()))))))"

definition main :: "'f env \<Rightarrow> inputs \<Rightarrow> ('f, unit) io" where
  "main env inp = main_with ascii_case env inp"

definition fetches :: "'f event list \<Rightarrow> 'f event list" where
  \<comment> \<open>the network calls of a run\<close>
  "fetches es = filter (\<lambda>ev. case ev of HttpGet url params \<Rightarrow> True | _ \<Rightarrow> False) es"

definition charts :: "'f event list \<Rightarrow> 'f event list" where
  \<comment> \<open>the chart files a run writes\<close>
  "charts es = filter (\<lambda>ev. case ev of WriteFile name txt \<Rightarrow> True | _ \<Rightarrow> False) es"

subsection \<open>The specification's notions\<close>

text \<open>
  A calendar date as the specification speaks of it, a date string in the exact format
  (four digits, hyphen, two digits, hyphen, two digits), and a date string in the format
  the date parser accepts: fields separated by hyphens, the year on four digits, the month
  on one or two digits, the day on one or two digits or on a blank and a digit.
\<close>

definition possible_date :: "nat \<Rightarrow> nat \<Rightarrow> nat \<Rightarrow> bool" where
  "possible_date y m d =
     (1 \<le> y \<and> y \<le> 9999 \<and> 1 \<le> m \<and> m \<le> 12 \<and> 1 \<le> d \<and> d \<le> days_in_month y m)"

definition valid_ymd_string :: "string \<Rightarrow> bool" where
  "valid_ymd_string s =
     (length s = 10 \<and> s ! 4 = CHR ''-'' \<and> s ! 7 = CHR ''-''
      \<and> list_all is_digit (take 4 s)
      \<and> list_all is_digit (take 2 (drop 5 s))
      \<and> list_all is_digit (drop 8 s)
      \<and> possible_date (decimal (take 4 s)) (decimal (take 2 (drop 5 s))) (decimal (drop 8 s)))"

fun split_on :: "char \<Rightarrow> string \<Rightarrow> string list" where
  \<comment> \<open>the fields of a string between the occurrences of a separator\<close>
  "split_on c [] = [[]]"
| "split_on c (x # xs) =
     (if x = c then [] # split_on c xs
      else (case split_on c xs of [] \<Rightarrow> [[x]] | f # fs \<Rightarrow> (x # f) # fs))"

definition day_field :: "string \<Rightarrow> bool" where
  "day_field ds =
     (case ds of
        [a] \<Rightarrow> is_digit a
      | [a, b] \<Rightarrow> (is_digit a \<or> a = CHR '' '') \<and> is_digit b
      | _ \<Rightarrow> False)"

definition month_field :: "string \<Rightarrow> bool" where
  "month_field ms = (case ms of [a] \<Rightarrow> is_digit a | [a, b] \<Rightarrow> is_digit a \<and> is_digit b | _ \<Rightarrow> False)"

definition accepted_date_string :: "string \<Rightarrow> bool" where
  "accepted_date_string s =
     (case split_on (CHR ''-'') s of
        [ys, ms, ds] \<Rightarrow>
          length ys = 4 \<and> list_all is_digit ys \<and> month_field ms \<and> day_field ds
          \<and> possible_date (decimal ys) (decimal ms)
                (decimal (dropWhile (\<lambda>c. c = CHR '' '') ds))
      | _ \<Rightarrow> False)"

text \<open>
  The closing price of a per-day record, when the field is there and \<open>float\<close> converts
  it; the row an entry of the response stands for; and the entries the normalizer
  tolerates: the date key parses, the record is a mapping, and its closing price is
  missing, null, a string, or a number \<open>float\<close> converts.
\<close>

definition close_of :: "'f float_ops \<Rightarrow> 'f json \<Rightarrow> 'f option" where
  "close_of ops v =
     (case v of
        JObj flds \<Rightarrow>
          (case map_of flds ''4. close'' of
             None \<Rightarrow> None
           | Some x \<Rightarrow> (case py_float ops x of Inr c \<Rightarrow> Some c | Inl e \<Rightarrow> None))
      | _ \<Rightarrow> None)"

definition row_of :: "'f float_ops \<Rightarrow> string \<times> 'f json \<Rightarrow> 'f row option" where
  "row_of ops kv =
     (case strptime (fst kv) of
        Inl e \<Rightarrow> None
      | Inr ts \<Rightarrow> (case close_of ops (snd kv) of None \<Rightarrow> None | Some c \<Rightarrow> Some (ts, c)))"

definition tolerated :: "'f float_ops \<Rightarrow> string \<times> 'f json \<Rightarrow> bool" where
  "tolerated ops kv =
     (case strptime (fst kv) of
        Inl e \<Rightarrow> False
      | Inr ts \<Rightarrow>
          (case snd kv of
             JObj flds \<Rightarrow>
               (case map_of flds ''4. close'' of
                  None \<Rightarrow> True
                | Some x \<Rightarrow>
                    (case x of
                       JNull \<Rightarrow> True
                     | _ \<Rightarrow> (case py_float ops x of Inr c \<Rightarrow> True | Inl e \<Rightarrow> e = ValueError)))
           | _ \<Rightarrow> False))"

text \<open>The elements of a tag in a document, the embedded image included.\<close>

fun with_tag :: "string \<Rightarrow> xml \<Rightarrow> (string option \<times> xml list) list" where
  \<comment> \<open>text and children of every element of the tag, in document order\<close>
  "with_tag t (Element tag attrib txt kids tail) =
     (if tag = t then [(txt, kids)] else []) @ concat (map (with_tag t) kids)"

subsection \<open>Instances for evaluation\<close>

text \<open>
  An instance of the \<open>float\<close> parameter that knows whole numbers only, a response of the
  quote service with its days out of order and one closing price that is no number, a
  parser that knows two images, and an environment that answers every request with the
  response.
\<close>

definition whole_floats :: "int float_ops" where
  "whole_floats =
     \<lparr> float_of_str = (\<lambda>s. if s \<noteq> [] \<and> list_all is_digit s then Some (int (decimal s)) else None),
       float_of_int = Some \<rparr>"

definition sample_entries :: "(string \<times> int json) list" where
  "sample_entries =
     [(''2024-03-05'', JObj [(''1. open'', JStr ''190''), (''4. close'', JStr ''191'')]),
      (''2024-03-01'', JObj [(''1. open'', JStr ''187''), (''4. close'', JStr ''188'')]),
      (''2024-03-04'', JObj [(''1. open'', JStr ''189''), (''4. close'', JStr ''n/a'')]),
      (''2024-02-29'', JObj [(''1. open'', JStr ''185'')])]"

definition sample_response :: "(string \<times> int json) list" where
  "sample_response =
     [(''Meta Data'', JObj [(''2. Symbol'', JStr ''IBM'')]),
      (''Time Series (Daily)'', JObj sample_entries)]"

definition digit_char :: "nat \<Rightarrow> char" where
  "digit_char n = ''0123456789'' ! (n mod 10)"

definition padded_strftime :: "datetime \<Rightarrow> string" where
  \<comment> \<open>a \<open>strftime("%Y-%m-%d")\<close> that writes the year on four digits\<close>
  "padded_strftime ts =
     (case dt_date ts of (y, m, d) \<Rightarrow>
        [digit_char (y div 1000), digit_char (y div 100), digit_char (y div 10), digit_char y,
         CHR ''-'', digit_char (m div 10), digit_char m,
         CHR ''-'', digit_char (d div 10), digit_char d])"

definition plain_svg :: xml where
  "plain_svg = Element ''svg'' [] None [] None"

definition svg_with_heading :: xml where
  "svg_with_heading = Element ''svg'' [] None [Element ''h1'' [] (Some ''IBM'') [] None] None"

definition sample_fromstring :: "string \<Rightarrow> string + xml" where
  "sample_fromstring s =
     (if s = ''<svg/>'' then Inr plain_svg
      else if s = ''<svg><h1>IBM</h1></svg>'' then Inr svg_with_heading
      else Inl ''Start tag expected'')"

definition sample_env :: "int env" where
  "sample_env =
     \<lparr> requests_get = (\<lambda>url params. Response 200 (Inr sample_response)),
       api_key = ''demo'',
       floats = whole_floats,
       pygal_render = (\<lambda>c. Inr ''<svg/>''),
       date_strftime = padded_strftime,
       etree_fromstring = sample_fromstring,
       etree_tostring = (\<lambda>doc. ''<html/>''),
       os_abspath = (\<lambda>name. ''/home/user/'' @ name) \<rparr>"

definition hourly_inputs :: inputs where
  "hourly_inputs = \<lparr> in_symbol = ''ibm'', in_chart_type = ''line'', in_time_series = ''hourly'',
      in_start_date = ''2024-03-01'', in_end_date = ''2024-03-31'' \<rparr>"

section \<open>Properties\<close>

subsection \<open>Date Utilities\<close>

lemma digit_val_Some: "digit_val c = Some v \<longleftrightarrow> of_char c = 48 + v \<and> v \<le> 9"
  by (auto simp: digit_val_def Let_def)

lemma is_digit_iff: "is_digit c \<longleftrightarrow> (\<exists>v. digit_val c = Some v \<and> v \<le> 9)"
  by (auto simp: is_digit_def digit_val_Some)

lemma char_eq_code: "c = d \<longleftrightarrow> (of_char c :: nat) = of_char d"
  by (simp add: of_char_eq_iff)

lemma digit_val_char:
  "digit_val c = Some 0 \<longleftrightarrow> c = CHR ''0''"
  "digit_val c = Some (Suc 0) \<longleftrightarrow> c = CHR ''1''"
  "digit_val c = Some 3 \<longleftrightarrow> c = CHR ''3''"
  using char_eq_code [of c "CHR ''0''"] char_eq_code [of c "CHR ''1''"] char_eq_code [of c "CHR ''3''"]
  by (auto simp: digit_val_Some)

lemma not_digit_sep [simp]: "digit_val (CHR ''-'') = None" "digit_val (CHR '' '') = None"
  by (simp_all add: digit_val_def)

lemma is_digit_not_sep: "is_digit c \<Longrightarrow> c \<noteq> CHR ''-'' \<and> c \<noteq> CHR '' ''"
  by (auto simp: is_digit_def)

lemma in_cls_iff: "in_cls lo hi c \<longleftrightarrow> (\<exists>v. digit_val c = Some v \<and> lo \<le> v \<and> v \<le> hi)"
  by (auto simp: in_cls_def split: option.splits)

lemma in_cls_digit: "in_cls lo hi c \<Longrightarrow> is_digit c"
  by (auto simp: in_cls_iff is_digit_def)

lemma decimal_simps [simp]:
  "decimal [] = 0"
  "decimal [a] = (case digit_val a of Some v \<Rightarrow> v | None \<Rightarrow> 0)"
  "decimal [a, b] = 10 * (case digit_val a of Some v \<Rightarrow> v | None \<Rightarrow> 0)
                      + (case digit_val b of Some v \<Rightarrow> v | None \<Rightarrow> 0)"
  by (simp_all add: decimal_def)

lemma alt1_mem: "(t, r) \<in> set (alt1 p s) \<longleftrightarrow> (\<exists>a. t = [a] \<and> s = a # r \<and> p a)"
  by (cases s) auto

lemma alt2_mem: "(t, r) \<in> set (alt2 p q s) \<longleftrightarrow> (\<exists>a b. t = [a, b] \<and> s = a # b # r \<and> p a \<and> q b)"
  by (cases "(p, q, s)" rule: alt2.cases) auto

lemma group_Y_mem:
  "(t, r) \<in> set (group_Y s) \<longleftrightarrow>
   (\<exists>a b c d. t = [a, b, c, d] \<and> s = a # b # c # d # r
      \<and> is_digit a \<and> is_digit b \<and> is_digit c \<and> is_digit d)"
  by (cases s rule: group_Y.cases) auto

lemma lit_mem: "r \<in> set (lit c s) \<longleftrightarrow> s = c # r"
  by (cases s) auto

lemma regex_match_mem:
  "(y, m, d, r) \<in> set (regex_match s) \<Longrightarrow>
   \<exists>r2 r4. (y, CHR ''-'' # r2) \<in> set (group_Y s) \<and> (m, CHR ''-'' # r4) \<in> set (group_m r2)
      \<and> (d, r) \<in> set (group_d r4)"
  by (auto simp: regex_match_def lit_mem; blast)

lemma literal_digits [simp]:
  "is_digit (CHR ''0'')" "is_digit (CHR ''1'')" "is_digit (CHR ''3'')"
  "\<not> is_digit (CHR ''-'')" "\<not> is_digit (CHR '' '')"
  by (simp_all add: is_digit_def digit_val_def)

lemma not_cls_sep [simp]: "\<not> in_cls lo hi (CHR ''-'')" "\<not> in_cls lo hi (CHR '' '')"
  by (simp_all add: in_cls_def)

lemma group_m_mem:
  assumes "(m, r) \<in> set (group_m s)"
  shows "s = m @ r \<and> month_field m \<and> list_all is_digit m"
  using assms
  by (auto simp: group_m_def alt1_mem alt2_mem month_field_def in_cls_digit)

lemma group_d_mem:
  assumes "(d, r) \<in> set (group_d s)"
  shows "s = d @ r \<and> day_field d \<and> CHR ''-'' \<notin> set d"
  using assms
  by (auto simp: group_d_def alt1_mem alt2_mem day_field_def in_cls_digit dest: is_digit_not_sep)

lemma digits_no_sep: "list_all is_digit xs \<Longrightarrow> CHR ''-'' \<notin> set xs"
  by (auto simp: list_all_iff)

lemma py_int_digits: "list_all is_digit xs \<Longrightarrow> py_int xs = decimal xs"
  by (cases xs) (auto simp: py_int_def)

lemma split_on_no_sep: "c \<notin> set xs \<Longrightarrow> split_on c xs = [xs]"
  by (induction xs) auto

lemma split_on_append: "c \<notin> set xs \<Longrightarrow> split_on c (xs @ c # rest) = xs # split_on c rest"
  by (induction xs) auto

lemma strptime_accepted:
  assumes "strptime s = Inr ts"
  shows "accepted_date_string s"
proof -
  from assms obtain y m d rest more where rm: "regex_match s = (y, m, d, rest) # more"
    by (auto simp: strptime_def split: list.splits)
  with assms have rest: "rest = []"
    and dn: "\<exists>dd. date_new (py_int y) (py_int m) (py_int d) = Inr dd"
    by (auto simp: strptime_def split: if_splits sum.splits)
  from rm have "(y, m, d, rest) \<in> set (regex_match s)" by simp
  from regex_match_mem [OF this] obtain r2 r4 where
    gy: "(y, CHR ''-'' # r2) \<in> set (group_Y s)" and gm: "(m, CHR ''-'' # r4) \<in> set (group_m r2)"
    and gd: "(d, rest) \<in> set (group_d r4)" by blast
  from gy have y: "s = y @ CHR ''-'' # r2" "length y = 4" "list_all is_digit y"
    by (auto simp: group_Y_mem)
  from group_m_mem [OF gm] have m: "r2 = m @ CHR ''-'' # r4" "month_field m" "list_all is_digit m"
    by simp_all
  from group_d_mem [OF gd] rest have d: "r4 = d" "day_field d" "CHR ''-'' \<notin> set d"
    by simp_all
  have sp: "split_on (CHR ''-'') s = [y, m, d]"
    using y m d by (simp add: split_on_append split_on_no_sep digits_no_sep)
  from dn have "possible_date (py_int y) (py_int m) (py_int d)"
    by (auto simp: date_new_def possible_date_def split: if_splits)
  then have "possible_date (decimal y) (decimal m) (decimal (dropWhile (\<lambda>c. c = CHR '' '') d))"
    using y(3) m(3) by (simp add: py_int_digits) (simp add: py_int_def)
  with sp y m d show ?thesis
    by (simp add: accepted_date_string_def)
qed


lemma split_on_nonempty: "split_on c s \<noteq> []"
  by (induction s) (auto split: list.splits)

lemma split_on_Cons:
  "split_on c s = f # fs \<Longrightarrow>
   (fs = [] \<and> s = f) \<or> (\<exists>rest. s = f @ c # rest \<and> split_on c rest = fs)"
proof (induction s arbitrary: f fs)
  case Nil
  then show ?case by simp
next
  case (Cons x xs)
  show ?case
  proof (cases "x = c")
    case True
    with Cons.prems show ?thesis by auto
  next
    case False
    obtain f' fs' where sp: "split_on c xs = f' # fs'"
      using split_on_nonempty [of c xs] by (cases "split_on c xs") auto
    with False Cons.prems have f: "f = x # f'" "fs = fs'" by auto
    from Cons.IH [OF sp] show ?thesis
      using f by auto
  qed
qed

lemma split_on_three:
  assumes "split_on c s = [a, b, d]"
  shows "s = a @ c # b @ c # d"
proof -
  from split_on_Cons [OF assms] obtain r1 where r1: "s = a @ c # r1" "split_on c r1 = [b, d]"
    by auto
  from split_on_Cons [OF r1(2)] obtain r2 where r2: "r1 = b @ c # r2" "split_on c r2 = [d]"
    by auto
  from split_on_Cons [OF r2(2)] have "r2 = d"
    using split_on_nonempty by auto
  with r1 r2 show ?thesis by simp
qed

lemma days_in_month_le: "1 \<le> m \<Longrightarrow> m \<le> 12 \<Longrightarrow> days_in_month y m \<le> 31"
proof -
  assume "1 \<le> m" "m \<le> 12"
  then have "m = 1 \<or> m = 2 \<or> m = 3 \<or> m = 4 \<or> m = 5 \<or> m = 6 \<or> m = 7 \<or> m = 8
      \<or> m = 9 \<or> m = 10 \<or> m = 11 \<or> m = 12" by arith
  then show ?thesis by (auto simp: days_in_month_def)
qed

lemma group_m_first:
  assumes "month_field ms" and "1 \<le> decimal ms" and "decimal ms \<le> 12"
  shows "\<exists>mm. group_m (ms @ CHR ''-'' # r) = (ms, CHR ''-'' # r) # mm"
proof -
  from assms(1) consider e where "ms = [e]" "is_digit e"
    | e f where "ms = [e, f]" "is_digit e" "is_digit f"
    by (auto simp: month_field_def split: list.splits)
  then show ?thesis
  proof cases
    case 1
    with assms(2) show ?thesis
      by (auto simp: group_m_def in_cls_iff is_digit_iff)
  next
    case 2
    then obtain ev fv where v: "digit_val e = Some ev" "digit_val f = Some fv" "ev \<le> 9" "fv \<le> 9"
      by (auto simp: is_digit_iff)
    with assms(2,3) 2 have "(ev = Suc 0 \<and> fv \<le> 2) \<or> (ev = 0 \<and> 1 \<le> fv)"
      by auto
    then show ?thesis
      using 2 v by (auto simp: group_m_def in_cls_iff digit_val_char)
  qed
qed

lemma group_d_first:
  assumes "day_field ds" and "1 \<le> decimal (dropWhile (\<lambda>c. c = CHR '' '') ds)"
    and "decimal (dropWhile (\<lambda>c. c = CHR '' '') ds) \<le> 31"
  shows "\<exists>dm. group_d ds = (ds, []) # dm"
proof -
  from assms(1) consider g where "ds = [g]" "is_digit g"
    | g h where "ds = [g, h]" "is_digit g" "is_digit h"
    | h where "ds = [CHR '' '', h]" "is_digit h"
    by (auto simp: day_field_def split: list.splits)
  then show ?thesis
  proof cases
    case 1
    with assms(2) show ?thesis
      using is_digit_not_sep [of g]
      by (auto simp: group_d_def in_cls_iff is_digit_iff)
  next
    case 2
    then obtain gv hv where v: "digit_val g = Some gv" "digit_val h = Some hv" "gv \<le> 9" "hv \<le> 9"
      by (auto simp: is_digit_iff)
    from 2 have ns: "g \<noteq> CHR '' ''" using is_digit_not_sep by blast
    with assms(2,3) 2 v have "(gv = 3 \<and> hv \<le> 1) \<or> (1 \<le> gv \<and> gv \<le> 2) \<or> (gv = 0 \<and> 1 \<le> hv)"
      by auto
    then show ?thesis
      using 2 v ns by (auto simp: group_d_def in_cls_iff digit_val_char is_digit_iff)
  next
    case 3
    then have ns: "h \<noteq> CHR '' ''" using is_digit_not_sep by blast
    with assms(2) 3 show ?thesis
      by (auto simp: group_d_def in_cls_iff is_digit_iff)
  qed
qed

lemma regex_match_first:
  assumes "group_Y s = [(y, CHR ''-'' # r2)]"
    and "group_m r2 = (m, CHR ''-'' # r4) # mm"
    and "group_d r4 = (d, rest) # dm"
  shows "\<exists>more. regex_match s = (y, m, d, rest) # more"
  using assms by (simp add: regex_match_def)

lemma accepted_strptime:
  assumes "accepted_date_string s"
  shows "\<exists>ys ms ds. split_on (CHR ''-'') s = [ys, ms, ds]
     \<and> strptime s = Inr ((decimal ys, decimal ms, decimal (dropWhile (\<lambda>c. c = CHR '' '') ds)),
                          0, 0, 0, 0)"
proof -
  from assms obtain ys ms ds where sp: "split_on (CHR ''-'') s = [ys, ms, ds]"
    and ys: "length ys = 4" "list_all is_digit ys" and ms: "month_field ms" and ds: "day_field ds"
    and pd: "possible_date (decimal ys) (decimal ms) (decimal (dropWhile (\<lambda>c. c = CHR '' '') ds))"
    by (auto simp: accepted_date_string_def split: list.splits)
  from split_on_three [OF sp] have s: "s = ys @ CHR ''-'' # ms @ CHR ''-'' # ds" .
  from ys obtain a b c d where y4: "ys = [a, b, c, d]"
    by (auto simp: length_Suc_conv numeral_eq_Suc)
  with ys have gy: "group_Y s = [(ys, CHR ''-'' # ms @ CHR ''-'' # ds)]"
    by (simp add: s)
  from pd have m12: "1 \<le> decimal ms" "decimal ms \<le> 12"
    and d31: "1 \<le> decimal (dropWhile (\<lambda>c. c = CHR '' '') ds)"
      "decimal (dropWhile (\<lambda>c. c = CHR '' '') ds) \<le> 31"
    using days_in_month_le [of "decimal ms" "decimal ys"]
    by (auto simp: possible_date_def)
  from group_m_first [OF ms m12] obtain mm where
    gm: "group_m (ms @ CHR ''-'' # ds) = (ms, CHR ''-'' # ds) # mm" by blast
  from group_d_first [OF ds d31] obtain dm where gd: "group_d ds = (ds, []) # dm" by blast
  from regex_match_first [OF gy gm gd] obtain more where
    rm: "regex_match s = (ys, ms, ds, []) # more" by blast
  have mdig: "list_all is_digit ms"
    using ms by (auto simp: month_field_def split: list.splits)
  have "strptime s = Inr ((decimal ys, decimal ms, decimal (dropWhile (\<lambda>c. c = CHR '' '') ds)),
                          0, 0, 0, 0)"
    using pd by (simp add: strptime_def rm py_int_digits ys mdig date_new_def possible_date_def)
      (simp add: py_int_def)
  with sp show ?thesis by blast
qed


lemma strptime_error: "strptime s = Inl e \<Longrightarrow> e = ValueError"
  by (auto simp: strptime_def date_new_def split: list.splits prod.splits if_splits sum.splits)

lemma validate_date_bool:
  "validate_date s = Inr (case strptime s of Inr ts \<Rightarrow> True | Inl e \<Rightarrow> False)"
  by (auto simp: validate_date_def split: sum.splits dest: strptime_error)

text \<open>
  C4, as the code has it. On every ASCII string \<open>validate_date\<close> returns, and it returns
  true exactly for the strings of three fields separated by hyphens, a year of four
  digits, a month of one or two digits and a day of one or two digits or of a blank and a
  digit, that denote a date of the calendar (years 1 to 9999). Month and day need no
  leading zero.
\<close>

theorem validate_date_accepts:
  assumes "list_all is_ascii s"
  shows "validate_date s = Inr (accepted_date_string s)"
proof (cases "strptime s")
  case (Inl e)
  then have "\<not> accepted_date_string s"
    using accepted_strptime [of s] by auto
  with Inl show ?thesis by (simp add: validate_date_bool)
next
  case (Inr ts)
  then have "accepted_date_string s" by (rule strptime_accepted)
  with Inr show ?thesis by (simp add: validate_date_bool)
qed

lemma strptime_unpadded:
  "strptime ''2020-1-5'' = Inr ((2020, 1, 5), 0, 0, 0, 0)"
  "strptime ''2020-01- 5'' = Inr ((2020, 1, 5), 0, 0, 0, 0)"
  "strptime ''2020/01/05'' = Inl ValueError"
  "strptime ''2023-02-29'' = Inl ValueError"
  by (simp_all add: strptime_def regex_match_def group_m_def group_d_def in_cls_def
      is_digit_def digit_val_def py_int_def decimal_def date_new_def days_in_month_def
      is_leap_def)

theorem validate_date_unpadded_counterexample:
  "validate_date ''2020-1-5'' = Inr True \<and> \<not> valid_ymd_string ''2020-1-5''
   \<and> validate_date ''2020-01- 5'' = Inr True \<and> \<not> valid_ymd_string ''2020-01- 5''"
  by (simp add: validate_date_bool strptime_unpadded valid_ymd_string_def)

theorem validate_date_accepts_witness:
  "list_all is_ascii ''2020-1-5'' \<and> validate_date ''2020-1-5'' = Inr True
   \<and> accepted_date_string ''2020-1-5''
   \<and> list_all is_ascii ''2020/01/05'' \<and> validate_date ''2020/01/05'' = Inr False
   \<and> \<not> accepted_date_string ''2020/01/05''
   \<and> list_all is_ascii ''2023-02-29'' \<and> validate_date ''2023-02-29'' = Inr False
   \<and> \<not> accepted_date_string ''2023-02-29''"
proof -
  have a: "list_all is_ascii ''2020-1-5''" "list_all is_ascii ''2020/01/05''"
    "list_all is_ascii ''2023-02-29''"
    by (simp_all add: is_ascii_def)
  from validate_date_accepts [OF a(1)] validate_date_accepts [OF a(2)]
    validate_date_accepts [OF a(3)] a
  show ?thesis by (simp add: validate_date_bool strptime_unpadded)
qed

text \<open>
  C8. For every date string in the exact format (four digits, hyphen, two digits, hyphen,
  two digits) that denotes a date of the calendar (years 1 to 9999, the years
  \<open>datetime.date\<close> has), \<open>validate_date\<close> returns true and
  \<open>to_date\<close> returns the date whose year, month and day are the numbers the three
  fields write.
\<close>

theorem valid_string_parses:
  assumes "valid_ymd_string s"
  shows "validate_date s = Inr True
    \<and> to_date s = Inr (decimal (take 4 s), decimal (take 2 (drop 5 s)), decimal (drop 8 s))"
proof -
  from assms have len: "length s = 10" by (simp add: valid_ymd_string_def)
  then obtain a b c d p e f q g h where s: "s = [a, b, c, d, p, e, f, q, g, h]"
    by (auto simp: length_Suc_conv numeral_eq_Suc)
  from assms have sep: "p = CHR ''-''" "q = CHR ''-''"
    and dig: "is_digit a" "is_digit b" "is_digit c" "is_digit d" "is_digit e" "is_digit f"
      "is_digit g" "is_digit h"
    and pd: "possible_date (decimal [a, b, c, d]) (decimal [e, f]) (decimal [g, h])"
    by (simp_all add: valid_ymd_string_def s)
  have ns: "a \<noteq> CHR ''-''" "b \<noteq> CHR ''-''" "c \<noteq> CHR ''-''" "d \<noteq> CHR ''-''" "e \<noteq> CHR ''-''"
    "f \<noteq> CHR ''-''" "g \<noteq> CHR ''-''" "h \<noteq> CHR ''-''" "g \<noteq> CHR '' ''"
    using dig is_digit_not_sep by blast+
  have sp: "split_on (CHR ''-'') s = [[a, b, c, d], [e, f], [g, h]]"
    using ns by (simp add: s sep)
  have "accepted_date_string s"
    using pd dig ns by (simp add: accepted_date_string_def sp month_field_def day_field_def)
  from accepted_strptime [OF this] sp ns
  have "strptime s = Inr ((decimal [a, b, c, d], decimal [e, f], decimal [g, h]), 0, 0, 0, 0)"
    by simp
  then show ?thesis
    by (simp add: validate_date_bool to_date_def dt_date_def s)
qed

theorem valid_string_parses_witness:
  "valid_ymd_string ''2024-02-29'' \<and> validate_date ''2024-02-29'' = Inr True
   \<and> to_date ''2024-02-29'' = Inr (2024, 2, 29)"
proof -
  have v: "valid_ymd_string ''2024-02-29''"
    by (simp add: valid_ymd_string_def is_digit_def digit_val_def decimal_def possible_date_def
        days_in_month_def is_leap_def)
  from valid_string_parses [OF v] v show ?thesis
    by (simp add: decimal_def digit_val_def)
qed

subsection \<open>Range Filter\<close>

text \<open>
  C7. The Range Filter is idempotent: filtering an already filtered series again with the
  same range returns the once-filtered series, for every series and every pair of bounds.
\<close>

theorem filter_range_idempotent:
  "filter_range (filter_range rows start_d end_d) start_d end_d = filter_range rows start_d end_d"
  by (simp add: filter_range_def)

theorem filter_range_idempotent_witness:
  "filter_range
     (filter_range [(((2024, 3, 1), 0, 0, 0, 0), 188 :: int), (((2024, 3, 5), 0, 0, 0, 0), 191)]
        (2024, 3, 2) (2024, 3, 31))
     (2024, 3, 2) (2024, 3, 31)
   = [(((2024, 3, 5), 0, 0, 0, 0), 191)]"
  using filter_range_idempotent
    [of "[(((2024, 3, 1), 0, 0, 0, 0), 188 :: int), (((2024, 3, 5), 0, 0, 0, 0), 191)]"
        "(2024, 3, 2)" "(2024, 3, 31)"]
  by (simp add: filter_range_def dt_date_def)

subsection \<open>Series Normalizer\<close>

lemma dt_date_mono: "a \<le> b \<Longrightarrow> dt_date a \<le> dt_date b"
  by (cases a; cases b) (auto simp: dt_date_def less_eq_prod_def)

lemma sorted_dates_of_sorted:
  "sorted (map fst rows) \<Longrightarrow> sorted (map (dt_date \<circ> fst) rows)"
  by (induction rows) (auto simp: dt_date_mono)

lemma strptime_examples:
  "strptime ''2024-03-05'' = Inr ((2024, 3, 5), 0, 0, 0, 0)"
  "strptime ''2024-03-01'' = Inr ((2024, 3, 1), 0, 0, 0, 0)"
  "strptime ''2024-03-04'' = Inr ((2024, 3, 4), 0, 0, 0, 0)"
  "strptime ''2024-02-29'' = Inr ((2024, 2, 29), 0, 0, 0, 0)"
  by (simp_all add: strptime_def regex_match_def group_m_def group_d_def in_cls_def
      is_digit_def digit_val_def py_int_def decimal_def date_new_def days_in_month_def
      is_leap_def)

lemma parse_sample_response:
  "parse_close_series whole_floats sample_response ''TIME_SERIES_DAILY''
   = ([], Inr [(((2024, 3, 1), 0, 0, 0, 0), 188), (((2024, 3, 5), 0, 0, 0, 0), 191)])"
  by (simp add: parse_close_series_def series_key_for_def sample_response_def sample_entries_def
      strptime_examples whole_floats_def is_digit_def digit_val_def decimal_def)

text \<open>
  C1. Whatever the order of the entries in the raw response, the list the Series Normalizer
  returns is sorted ascending, by its datetimes and so by its dates.
\<close>

theorem parse_close_series_sorted:
  assumes "snd (parse_close_series ops data fn) = Inr rows"
  shows "sorted (map fst rows) \<and> sorted (map (dt_date \<circ> fst) rows)"
proof -
  from assms obtain raw where "rows = sort_key fst raw"
    by (auto simp: parse_close_series_def split: sum.splits option.splits json.splits)
  then have "sorted (map fst rows)" by simp
  then show ?thesis by (simp add: sorted_dates_of_sorted)
qed

theorem parse_close_series_sorted_witness:
  "snd (parse_close_series whole_floats sample_response ''TIME_SERIES_DAILY'')
     = Inr [(((2024, 3, 1), 0, 0, 0, 0), 188), (((2024, 3, 5), 0, 0, 0, 0), 191)]
   \<and> sorted (map (dt_date \<circ> fst)
        [(((2024, 3, 1), 0, 0, 0, 0), 188 :: int), (((2024, 3, 5), 0, 0, 0, 0), 191)])"
proof -
  have r: "snd (parse_close_series whole_floats sample_response ''TIME_SERIES_DAILY'')
     = Inr [(((2024, 3, 1), 0, 0, 0, 0), 188), (((2024, 3, 5), 0, 0, 0, 0), 191)]"
    by (simp add: parse_sample_response)
  from parse_close_series_sorted [OF r] r show ?thesis by blast
qed

text \<open>
  C10. The tolerance of the Series Normalizer for bad closing prices ends at missing fields
  and strings: a closing price that is a list or a nested object makes \<open>float\<close> raise
  \<open>TypeError\<close>, which the normalizer does not catch.
\<close>

theorem close_not_string_or_number_raises:
  "snd (parse_close_series ops
          [(''Time Series (Daily)'',
            JObj [(''2024-03-01'', JObj [(''4. close'', JList [JStr ''188''])])])]
          ''TIME_SERIES_DAILY'') = Inl TypeError
   \<and> snd (parse_close_series ops
          [(''Weekly Time Series'',
            JObj [(''2024-03-01'', JObj [(''4. close'', JObj [(''value'', JStr ''188'')])])])]
          ''TIME_SERIES_WEEKLY'') = Inl TypeError"
  by (simp add: parse_close_series_def series_key_for_def strptime_examples)

lemma tolerated_parses: "tolerated ops kv \<Longrightarrow> \<exists>ts. strptime (fst kv) = Inr ts"
  by (cases "strptime (fst kv)") (auto simp: tolerated_def)

lemma close_rows_step:
  assumes "tolerated ops (k, v)"
  shows "close_rows ops ((k, v) # kvs) rows
         = close_rows ops kvs (rows @ (case row_of ops (k, v) of None \<Rightarrow> [] | Some r \<Rightarrow> [r]))"
proof -
  from tolerated_parses [OF assms] obtain ts where ts: "strptime k = Inr ts" by auto
  from assms ts obtain flds where v: "v = JObj flds"
    by (cases v) (simp_all add: tolerated_def)
  show ?thesis
  proof (cases "map_of flds ''4. close''")
    case None
    then show ?thesis by (simp add: ts v row_of_def close_of_def)
  next
    case (Some x)
    show ?thesis
    proof (cases "py_float ops x")
      case (Inl e)
      with assms Some ts v have "x = JNull \<or> e = ValueError"
        by (cases x) (simp_all add: tolerated_def)
      with Inl Some show ?thesis
        by (cases x) (auto simp: ts v row_of_def close_of_def)
    next
      case (Inr c)
      with Some show ?thesis
        by (cases x) (auto simp: ts v row_of_def close_of_def)
    qed
  qed
qed

lemma close_rows_tolerated:
  "list_all (tolerated ops) kvs \<Longrightarrow>
   close_rows ops kvs rows = Inr (rows @ List.map_filter (row_of ops) kvs)"
proof (induction kvs arbitrary: rows)
  case Nil
  then show ?case by simp
next
  case (Cons kv kvs)
  obtain k v where kv: "kv = (k, v)" by (cases kv)
  from Cons.prems have t: "tolerated ops (k, v)" and rest: "list_all (tolerated ops) kvs"
    by (simp_all add: kv)
  show ?case
    unfolding kv close_rows_step [OF t] Cons.IH [OF rest]
    by (simp split: option.splits)
qed


lemma length_map_filter: "length (List.map_filter f xs) = length (filter (\<lambda>x. f x \<noteq> None) xs)"
  by (induction xs) (auto split: option.splits)

lemma row_of_None_iff:
  "tolerated ops kv \<Longrightarrow> (row_of ops kv = None) = (close_of ops (snd kv) = None)"
  by (auto simp: row_of_def split: sum.splits option.splits dest: tolerated_parses)

lemma row_of_Some:
  "row_of ops kv = Some r \<Longrightarrow> strptime (fst kv) = Inr (fst r) \<and> close_of ops (snd kv) = Some (snd r)"
  by (auto simp: row_of_def split: sum.splits option.splits)

text \<open>
  C2, as the code has it. Take a response with the expected top-level key, under it a
  mapping whose entries are all tolerated: the date key parses, the record is a mapping,
  and the closing price is missing, null, a string, or a number \<open>float\<close> converts. Then
  the normalizer does not raise and prints nothing; its output is the sorted list of the
  rows of the entries whose closing price is there and numeric, one row for each, and so
  every entry whose closing price is missing, null or a string that is no number is left
  out.
\<close>

theorem tolerated_entries_dropped:
  assumes "series_key_for fn = Inr key"
    and "map_of data key = Some (JObj entries)"
    and "list_all (tolerated ops) entries"
  shows "parse_close_series ops data fn = ([], Inr (sort_key fst (List.map_filter (row_of ops) entries)))
    \<and> length (List.map_filter (row_of ops) entries)
        = length (filter (\<lambda>kv. close_of ops (snd kv) \<noteq> None) entries)
    \<and> (\<forall>r \<in> set (List.map_filter (row_of ops) entries). \<exists>kv \<in> set entries.
          strptime (fst kv) = Inr (fst r) \<and> close_of ops (snd kv) = Some (snd r))"
proof -
  have p: "parse_close_series ops data fn = ([], Inr (sort_key fst (List.map_filter (row_of ops) entries)))"
    using assms by (simp add: parse_close_series_def close_rows_tolerated)
  have "filter (\<lambda>kv. row_of ops kv \<noteq> None) entries
        = filter (\<lambda>kv. close_of ops (snd kv) \<noteq> None) entries"
    using assms(3) by (intro filter_cong refl) (simp add: list_all_iff row_of_None_iff)
  then have len: "length (List.map_filter (row_of ops) entries)
      = length (filter (\<lambda>kv. close_of ops (snd kv) \<noteq> None) entries)"
    by (simp add: length_map_filter)
  have mem: "\<forall>r \<in> set (List.map_filter (row_of ops) entries). \<exists>kv \<in> set entries.
          strptime (fst kv) = Inr (fst r) \<and> close_of ops (snd kv) = Some (snd r)"
  proof
    fix r assume "r \<in> set (List.map_filter (row_of ops) entries)"
    then obtain kv where "kv \<in> set entries" "row_of ops kv = Some r"
      by (auto simp: List.map_filter_def)
    then show "\<exists>kv \<in> set entries.
          strptime (fst kv) = Inr (fst r) \<and> close_of ops (snd kv) = Some (snd r)"
      using row_of_Some by blast
  qed
  from p len mem show ?thesis by blast
qed

theorem non_numeric_close_counterexample:
  "snd (parse_close_series whole_floats
          [(''Monthly Time Series'',
            JObj [(''2024-03-01'', JObj [(''4. close'', JStr ''187'')]),
                  (''2024-02-29'', JObj [(''4. close'', JList [])])])]
          ''TIME_SERIES_MONTHLY'') = Inl TypeError"
  by (simp add: parse_close_series_def series_key_for_def whole_floats_def strptime_examples
      is_digit_def digit_val_def decimal_def)

lemma whole_floats_examples:
  "py_float whole_floats (JStr ''191'') = Inr 191"
  "py_float whole_floats (JStr ''188'') = Inr 188"
  "py_float whole_floats (JStr ''n/a'') = Inl ValueError"
  by (simp_all add: whole_floats_def is_digit_def digit_val_def decimal_def)

theorem tolerated_entries_dropped_witness:
  "series_key_for ''TIME_SERIES_DAILY'' = Inr ''Time Series (Daily)''
   \<and> map_of sample_response ''Time Series (Daily)'' = Some (JObj sample_entries)
   \<and> list_all (tolerated whole_floats) sample_entries
   \<and> parse_close_series whole_floats sample_response ''TIME_SERIES_DAILY''
       = ([], Inr [(((2024, 3, 1), 0, 0, 0, 0), 188), (((2024, 3, 5), 0, 0, 0, 0), 191)])
   \<and> length (filter (\<lambda>kv. close_of whole_floats (snd kv) \<noteq> None) sample_entries) = 2"
proof -
  have k: "series_key_for ''TIME_SERIES_DAILY'' = Inr ''Time Series (Daily)''"
    by (simp add: series_key_for_def)
  have m: "map_of sample_response ''Time Series (Daily)'' = Some (JObj sample_entries)"
    by (simp add: sample_response_def sample_entries_def)
  have t: "list_all (tolerated whole_floats) sample_entries"
    by (simp add: sample_entries_def tolerated_def strptime_examples whole_floats_examples
        del: py_float.simps)
  have rows: "List.map_filter (row_of whole_floats) sample_entries
      = [(((2024, 3, 5), 0, 0, 0, 0), 191), (((2024, 3, 1), 0, 0, 0, 0), 188)]"
    by (simp add: sample_entries_def row_of_def close_of_def strptime_examples whole_floats_examples
        del: py_float.simps)
  from tolerated_entries_dropped [OF k m t] k m t show ?thesis
    by (simp add: rows)
qed

subsection \<open>Label Thinner\<close>

text \<open>
  C3, as the code has it. A list of at most \<open>max_labels\<close> labels is returned unchanged.
  A longer list, for \<open>max_labels\<close> other than 0, is thinned with
  \<open>step = max(1, length // max_labels)\<close>: the label at index \<open>i\<close> is kept exactly when
  \<open>i % step = 0\<close> or \<open>i\<close> is the last index, every other position holds the placeholder,
  and the length is the length of the input. For \<open>max_labels = 0\<close> and a list that is not
  empty the call raises \<open>ZeroDivisionError\<close>. For 100 labels and \<open>max_labels = 12\<close> the
  step is 8: exactly the labels at the multiples of 8 and at index 99 are kept.
\<close>

theorem thin_labels_spec:
  "(int (length labels) \<le> max_labels \<longrightarrow> thin_labels labels max_labels = Inr (map Some labels))
    \<and> (max_labels < int (length labels) \<and> max_labels \<noteq> 0 \<longrightarrow>
        (\<exists>out. thin_labels labels max_labels = Inr out \<and> length out = length labels \<and>
          (\<forall>i < length labels.
             out ! i = (if i mod nat (max 1 (int (length labels) div max_labels)) = 0
                           \<or> i = length labels - 1
                        then Some (labels ! i) else None))))
    \<and> (labels \<noteq> [] \<longrightarrow> thin_labels labels 0 = Inl ZeroDivisionError)
    \<and> (length labels = 100 \<longrightarrow>
        (\<exists>out. thin_labels labels 12 = Inr out \<and> length out = 100 \<and>
          (\<forall>i < 100. out ! i = (if i mod 8 = 0 \<or> i = 99 then Some (labels ! i) else None))))"
  by (auto simp: thin_labels_def Let_def nth_enumerate_eq)

theorem thin_labels_zero_counterexample:
  "thin_labels [''2024-03-01''] 0 = Inl ZeroDivisionError"
  by (simp add: thin_labels_def)

theorem thin_labels_spec_witness:
  "thin_labels [''a'', ''b'', ''c'', ''d'', ''e''] 2 = Inr [Some ''a'', None, Some ''c'', None, Some ''e'']
   \<and> thin_labels [''a'', ''b''] 2 = Inr [Some ''a'', Some ''b'']
   \<and> thin_labels [''a'', ''b''] 0 = Inl ZeroDivisionError"
  using thin_labels_spec [of "[''a'', ''b'', ''c'', ''d'', ''e'']" 2] thin_labels_spec [of "[''a'', ''b'']" 2]
  by (simp add: thin_labels_def enumerate_eq_zip upt_rec)

subsection \<open>Document Assembler\<close>

lemma xml_compatible_ascii:
  "list_all is_ascii s \<Longrightarrow> xml_compatible s = list_all xml_char s"
  by (induction s rule: xml_compatible.induct) auto

text \<open>
  C9, as the code has it. Let the page title be a string the XML library takes for text.
  For an image string the parser accepts, the assembler returns a document whose chart
  container has exactly one child, the parsed image; outside the image the document has
  exactly one \<open>h1\<close> heading, whose text is the page title, and no preformatted block (the
  headings and blocks of the document are these and those of the image). For an image
  string the parser rejects, when the library takes the fallback text (the error note, an
  empty line, the original text) for text, the assembler returns a document with the same
  single heading and, as the only child of the chart container, the only preformatted
  block, whose text is the fallback text.
\<close>

theorem wrap_html_document:
  assumes "xml_compatible page_title"
  shows "(fromstring svg_text = Inr el \<longrightarrow>
           (\<exists>doc. wrap_html fromstring svg_text page_title = Inr doc
              \<and> with_tag ''div'' doc = (None, [el]) # with_tag ''div'' el
              \<and> with_tag ''h1'' doc = (Some page_title, []) # with_tag ''h1'' el
              \<and> with_tag ''pre'' doc = with_tag ''pre'' el))
    \<and> (fromstring svg_text = Inl msg \<and> xml_compatible (embed_error_text msg svg_text) \<longrightarrow>
           (\<exists>doc. wrap_html fromstring svg_text page_title = Inr doc
              \<and> with_tag ''h1'' doc = [(Some page_title, [])]
              \<and> with_tag ''pre'' doc
                  = [(Some (''(SVG embed error: '' @ msg @ '')'' @ [CHR 0x0A, CHR 0x0A] @ svg_text), [])]
              \<and> with_tag ''div'' doc
                  = [(None, [Element ''pre'' []
                       (Some (''(SVG embed error: '' @ msg @ '')'' @ [CHR 0x0A, CHR 0x0A] @ svg_text))
                       [] None])]))"
proof -
  have eq: "''(SVG embed error: '' @ msg @ '')'' @ [CHR 0x0A, CHR 0x0A] @ svg_text
      = embed_error_text msg svg_text"
    by (simp add: embed_error_text_def)
  have a: "fromstring svg_text = Inr el \<Longrightarrow> ?thesis"
    using assms by (simp add: wrap_html_def set_text_def Let_def)
  have b: "fromstring svg_text = Inl msg \<Longrightarrow> ?thesis"
    unfolding eq using assms by (simp add: wrap_html_def set_text_def Let_def)
  show ?thesis using a b by (cases "fromstring svg_text") auto
qed

theorem wrap_html_raises_counterexample:
  "sample_fromstring (''<svg>'' @ [CHR 0x01]) = Inl ''Start tag expected''
   \<and> wrap_html sample_fromstring (''<svg>'' @ [CHR 0x01]) ''IBM'' = Inl ValueError
   \<and> sample_fromstring ''<svg/>'' = Inr plain_svg
   \<and> wrap_html sample_fromstring ''<svg/>'' (''IBM'' @ [CHR 0x01]) = Inl ValueError
   \<and> sample_fromstring ''<svg><h1>IBM</h1></svg>'' = Inr svg_with_heading
   \<and> (case wrap_html sample_fromstring ''<svg><h1>IBM</h1></svg>'' ''IBM'' of
         Inr doc \<Rightarrow> map fst (with_tag ''h1'' doc) | Inl e \<Rightarrow> [])
       = [Some ''IBM'', Some ''IBM'']"
  by (simp add: wrap_html_def set_text_def embed_error_text_def xml_char_def is_ascii_def
      sample_fromstring_def svg_with_heading_def)

theorem wrap_html_document_witness:
  "xml_compatible ''IBM''
   \<and> sample_fromstring ''<svg/>'' = Inr plain_svg
   \<and> sample_fromstring ''<svg'' = Inl ''Start tag expected''
   \<and> xml_compatible (embed_error_text ''Start tag expected'' ''<svg'')
   \<and> (\<exists>doc. wrap_html sample_fromstring ''<svg/>'' ''IBM'' = Inr doc
          \<and> with_tag ''div'' doc = [(None, [plain_svg])]
          \<and> with_tag ''h1'' doc = [(Some ''IBM'', [])])
   \<and> (\<exists>doc. wrap_html sample_fromstring ''<svg'' ''IBM'' = Inr doc
          \<and> with_tag ''h1'' doc = [(Some ''IBM'', [])]
          \<and> with_tag ''pre'' doc
                  = [(Some (''(SVG embed error: Start tag expected)'' @ [CHR 0x0A, CHR 0x0A] @ ''<svg''), [])])"
proof -
  have t: "xml_compatible ''IBM''" by (simp add: xml_char_def is_ascii_def)
  have g: "sample_fromstring ''<svg/>'' = Inr plain_svg" by (simp add: sample_fromstring_def)
  have b: "sample_fromstring ''<svg'' = Inl ''Start tag expected''"
    by (simp add: sample_fromstring_def)
  have c: "xml_compatible (embed_error_text ''Start tag expected'' ''<svg'')"
    by (simp add: embed_error_text_def xml_char_def is_ascii_def)
  have w1: "\<exists>doc. wrap_html sample_fromstring ''<svg/>'' ''IBM'' = Inr doc
          \<and> with_tag ''div'' doc = [(None, [plain_svg])]
          \<and> with_tag ''h1'' doc = [(Some ''IBM'', [])]"
    using wrap_html_document [OF t, of sample_fromstring "''<svg/>''" plain_svg "''x''"] g
    by (auto simp: plain_svg_def)
  have w2: "\<exists>doc. wrap_html sample_fromstring ''<svg'' ''IBM'' = Inr doc
          \<and> with_tag ''h1'' doc = [(Some ''IBM'', [])]
          \<and> with_tag ''pre'' doc
                  = [(Some (''(SVG embed error: Start tag expected)'' @ [CHR 0x0A, CHR 0x0A] @ ''<svg''), [])]"
    using wrap_html_document [OF t, of sample_fromstring "''<svg''" plain_svg "''Start tag expected''"] b c
    by auto
  from t g b c w1 w2 show ?thesis by blast
qed

subsection \<open>The run\<close>

lemma fetch_data_fetches:
  "fetches (fst (fetch_data env symbol fn))
   = [HttpGet API_URL [(''function'', fn), (''symbol'', symbol), (''apikey'', api_key env),
                       (''datatype'', ''json''), (''outputsize'', ''full'')]]"
  by (simp add: fetch_data_def Let_def fetches_def split: http_outcome.splits sum.splits option.splits)

lemma parse_close_series_fetches: "fetches (fst (parse_close_series ops data fn)) = []"
  by (simp add: parse_close_series_def fetches_def split: sum.splits option.splits json.splits)

lemma fetches_bind:
  "fetches (fst (bind_io m f)) =
     fetches (fst m) @ (case snd m of Inl e \<Rightarrow> [] | Inr a \<Rightarrow> fetches (fst (f a)))"
  by (cases m) (auto simp: bind_io_def fetches_def split: sum.splits prod.splits)

lemma main_try_fetches:
  assumes "function_for time_series = Inr fn"
  shows "fetches (fst (main_try ops env symbol chart_type time_series start_date end_date))
   = [HttpGet API_URL [(''function'', fn), (''symbol'', symbol), (''apikey'', api_key env),
                       (''datatype'', ''json''), (''outputsize'', ''full'')]]"
  using assms
  by (simp add: main_try_def fetches_bind fetch_data_fetches parse_close_series_fetches pure_io_def Let_def
      split: sum.splits)
     (simp add: fetches_def save_and_open_def Let_def)

lemma strptime_more_examples:
  "strptime ''2020-10-01'' = Inr ((2020, 10, 1), 0, 0, 0, 0)"
  "strptime ''2020-9-01'' = Inr ((2020, 9, 1), 0, 0, 0, 0)"
  "strptime ''2020-01-01'' = Inr ((2020, 1, 1), 0, 0, 0, 0)"
  "strptime ''2019-01-01'' = Inr ((2019, 1, 1), 0, 0, 0, 0)"
  by (simp_all add: strptime_def regex_match_def group_m_def group_d_def in_cls_def
      is_digit_def digit_val_def py_int_def decimal_def date_new_def days_in_month_def
      is_leap_def)

lemma main_with_checks_passed:
  assumes "strptime (in_start_date inp) = Inr a" and "strptime (in_end_date inp) = Inr b"
    and "\<not> in_start_date inp > in_end_date inp"
    and "str_lower ops (in_chart_type inp) \<in> {''line'', ''bar''}"
    and "function_for (str_upper ops (in_time_series inp)) = Inr fn"
  shows "fetches (fst (main_with ops env inp))
   = [HttpGet API_URL [(''function'', fn), (''symbol'', str_upper ops (in_symbol inp)),
        (''apikey'', api_key env), (''datatype'', ''json''), (''outputsize'', ''full'')]]"
proof -
  obtain es r where mt: "main_try ops env (str_upper ops (in_symbol inp))
      (str_lower ops (in_chart_type inp)) (str_upper ops (in_time_series inp))
      (in_start_date inp) (in_end_date inp) = (es, r)"
    by (cases "main_try ops env (str_upper ops (in_symbol inp))
      (str_lower ops (in_chart_type inp)) (str_upper ops (in_time_series inp))
      (in_start_date inp) (in_end_date inp)")
  have es: "fetches es = [HttpGet API_URL [(''function'', fn),
        (''symbol'', str_upper ops (in_symbol inp)),
        (''apikey'', api_key env), (''datatype'', ''json''), (''outputsize'', ''full'')]]"
    using main_try_fetches [OF assms(5), of ops env "str_upper ops (in_symbol inp)"
        "str_lower ops (in_chart_type inp)" "in_start_date inp" "in_end_date inp"] mt
    by simp
  have ts: "str_upper ops (in_time_series inp) \<in> {''DAILY'', ''WEEKLY'', ''MONTHLY''}"
    using assms(5) by (auto simp: function_for_def split: if_splits)
  have "fst (main_with ops env inp) =
      [Print [JStr ''=== Stock Data Visualizer ===''],
       Input ''Enter stock symbol (e.g., AAPL, GOOGL): '',
       Input ''Enter chart type (line, bar): '',
       Input ''Enter time series (daily, weekly, monthly): '',
       Input ''Enter start date (YYYY-MM-DD): '',
       Input ''Enter end date (YYYY-MM-DD): '']
      @ es @ (case r of Inl e \<Rightarrow> if e = SystemExit then [] else [PrintError ''Something went wrong:'' e]
                | Inr u \<Rightarrow> [])"
    using assms(1-4) ts mt
    by (cases r) (auto simp: main_with_def Let_def bind_io_def pure_io_def validate_date_bool)
  then show ?thesis using es
    by (cases r) (simp_all add: fetches_def)
qed

lemma ascii_case_examples:
  "str_upper ascii_case ''ibm'' = ''IBM''" "str_upper ascii_case ''daily'' = ''DAILY''"
  "str_upper ascii_case ''hourly'' = ''HOURLY''" "str_lower ascii_case ''line'' = ''line''"
  by (simp_all add: ascii_case_def py_upper_def py_lower_def upper_char_def lower_char_def
      lower_letters_def upper_letters_def)

text \<open>
  C6. \<open>DAILY\<close>, \<open>WEEKLY\<close> and \<open>MONTHLY\<close> map to the provider functions
  \<open>TIME_SERIES_DAILY\<close>, \<open>TIME_SERIES_WEEKLY\<close> and \<open>TIME_SERIES_MONTHLY\<close> and to the
  response keys \<open>Time Series (Daily)\<close>, \<open>Weekly Time Series\<close> and
  \<open>Monthly Time Series\<close>; every other granularity is refused by \<open>function_for\<close>, and,
  whatever the library's case conversions are, a run whose granularity (as \<open>main\<close> reads
  it, in upper case) is none of the three ends without a network call and without a chart.
\<close>

theorem granularity_tables_and_fail_fast:
  "function_for ''DAILY'' = Inr ''TIME_SERIES_DAILY''
   \<and> series_key_for ''TIME_SERIES_DAILY'' = Inr ''Time Series (Daily)''
   \<and> function_for ''WEEKLY'' = Inr ''TIME_SERIES_WEEKLY''
   \<and> series_key_for ''TIME_SERIES_WEEKLY'' = Inr ''Weekly Time Series''
   \<and> function_for ''MONTHLY'' = Inr ''TIME_SERIES_MONTHLY''
   \<and> series_key_for ''TIME_SERIES_MONTHLY'' = Inr ''Monthly Time Series''
   \<and> (ts \<notin> {''DAILY'', ''WEEKLY'', ''MONTHLY''} \<longrightarrow> function_for ts = Inl ValueError)
   \<and> (str_upper ops (in_time_series inp) \<notin> {''DAILY'', ''WEEKLY'', ''MONTHLY''} \<longrightarrow>
        fetches (fst (main_with ops env inp)) = [] \<and> charts (fst (main_with ops env inp)) = []
        \<and> snd (main_with ops env inp) = Inr ())"
proof -
  have tables: "function_for ''DAILY'' = Inr ''TIME_SERIES_DAILY''"
    "series_key_for ''TIME_SERIES_DAILY'' = Inr ''Time Series (Daily)''"
    "function_for ''WEEKLY'' = Inr ''TIME_SERIES_WEEKLY''"
    "series_key_for ''TIME_SERIES_WEEKLY'' = Inr ''Weekly Time Series''"
    "function_for ''MONTHLY'' = Inr ''TIME_SERIES_MONTHLY''"
    "series_key_for ''TIME_SERIES_MONTHLY'' = Inr ''Monthly Time Series''"
    by (simp_all add: function_for_def series_key_for_def)
  have other: "ts \<notin> {''DAILY'', ''WEEKLY'', ''MONTHLY''} \<longrightarrow> function_for ts = Inl ValueError"
    by (simp add: function_for_def)
  have run: "str_upper ops (in_time_series inp) \<notin> {''DAILY'', ''WEEKLY'', ''MONTHLY''} \<longrightarrow>
        fetches (fst (main_with ops env inp)) = [] \<and> charts (fst (main_with ops env inp)) = []
        \<and> snd (main_with ops env inp) = Inr ()"
    by (simp add: main_with_def Let_def bind_io_def pure_io_def fetches_def charts_def
        validate_date_bool split: sum.splits)
  from tables other run show ?thesis by blast
qed

theorem granularity_tables_and_fail_fast_witness:
  "function_for ''HOURLY'' = Inl ValueError
   \<and> py_upper (in_time_series hourly_inputs) = ''HOURLY''
   \<and> fetches (fst (main sample_env hourly_inputs)) = []
   \<and> charts (fst (main sample_env hourly_inputs)) = []
   \<and> snd (main sample_env hourly_inputs) = Inr ()"
  using granularity_tables_and_fail_fast [of "''HOURLY''" ascii_case hourly_inputs sample_env]
    ascii_case_examples
  by (simp add: hourly_inputs_def main_def) (simp add: ascii_case_def)

text \<open>
  C5. The start \<open>2020-10-01\<close> and the end \<open>2020-9-01\<close> are both accepted by
  \<open>validate_date\<close>, and the start parses to a date after the end; \<open>main\<close> compares the two
  strings, not the dates, finds the start before the end and goes on to the network call.
  The start \<open>2020-01-01\<close> with the end \<open>2019-01-01\<close> is stopped before any call.
\<close>

theorem start_after_end_still_fetches:
  "validate_date ''2020-10-01'' = Inr True \<and> validate_date ''2020-9-01'' = Inr True
   \<and> to_date ''2020-10-01'' = Inr (2020, 10, 1) \<and> to_date ''2020-9-01'' = Inr (2020, 9, 1)
   \<and> (2020, 9, 1) < ((2020, 10, 1) :: date)
   \<and> fetches (fst (main env \<lparr> in_symbol = ''ibm'', in_chart_type = ''line'',
         in_time_series = ''daily'', in_start_date = ''2020-10-01'', in_end_date = ''2020-9-01'' \<rparr>))
      = [HttpGet API_URL [(''function'', ''TIME_SERIES_DAILY''), (''symbol'', ''IBM''),
           (''apikey'', api_key env), (''datatype'', ''json''), (''outputsize'', ''full'')]]
   \<and> fetches (fst (main env \<lparr> in_symbol = ''ibm'', in_chart_type = ''line'',
         in_time_series = ''daily'', in_start_date = ''2020-01-01'', in_end_date = ''2019-01-01'' \<rparr>))
      = []"
proof -
  have a: "fetches (fst (main env \<lparr> in_symbol = ''ibm'', in_chart_type = ''line'',
         in_time_series = ''daily'', in_start_date = ''2020-10-01'', in_end_date = ''2020-9-01'' \<rparr>))
      = [HttpGet API_URL [(''function'', ''TIME_SERIES_DAILY''), (''symbol'', ''IBM''),
           (''apikey'', api_key env), (''datatype'', ''json''), (''outputsize'', ''full'')]]"
    using main_with_checks_passed [of "\<lparr> in_symbol = ''ibm'', in_chart_type = ''line'',
         in_time_series = ''daily'', in_start_date = ''2020-10-01'', in_end_date = ''2020-9-01'' \<rparr>"
         "((2020, 10, 1), 0, 0, 0, 0)" "((2020, 9, 1), 0, 0, 0, 0)" ascii_case
         "''TIME_SERIES_DAILY''" env]
    by (simp add: strptime_more_examples function_for_def ascii_case_examples main_def)
  have b: "fetches (fst (main env \<lparr> in_symbol = ''ibm'', in_chart_type = ''line'',
         in_time_series = ''daily'', in_start_date = ''2020-01-01'', in_end_date = ''2019-01-01'' \<rparr>))
      = []"
    by (simp add: main_def main_with_def Let_def bind_io_def pure_io_def validate_date_bool
        strptime_more_examples fetches_def)
  show ?thesis using a b
    by (simp add: validate_date_bool to_date_def dt_date_def strptime_more_examples)
qed

theorem start_after_end_still_fetches_witness:
  "fetches (fst (main sample_env \<lparr> in_symbol = ''ibm'', in_chart_type = ''line'',
         in_time_series = ''daily'', in_start_date = ''2020-10-01'', in_end_date = ''2020-9-01'' \<rparr>))
      = [HttpGet ''https://www.alphavantage.co/query'' [(''function'', ''TIME_SERIES_DAILY''), (''symbol'', ''IBM''),
           (''apikey'', ''demo''), (''datatype'', ''json''), (''outputsize'', ''full'')]]"
  using start_after_end_still_fetches [of sample_env]
  by (simp add: sample_env_def API_URL_def)

end
